theory Spec2Isabelle
  imports Main "HOL-Library.Word" "HOL-Library.AList"
begin

section \<open>Bytes, chunks and exceptions\<close>

text \<open>
  A Python \<^verbatim>\<open>bytes\<close> value is a list of 8-bit words. Python integers are unbounded
  and signed, so indices and counts that the code reads from its caller are \<open>int\<close>.
  Every exception the code can raise is a constructor of \<open>error\<close>; a function that can
  raise returns \<open>error + 'a\<close> with \<open>Inl\<close> for the exception.
\<close>

type_synonym byte = "8 word"
type_synonym bytes = "byte list"

datatype error =
    ValueError
  | IndexError
  | TypeError
  | AttributeError
  | ZeroDivisionError
  | SedesError

text \<open>\<^verbatim>\<open>ssz.constants\<close>: the chunk size and the all-zero chunk.\<close>

definition CHUNK_SIZE :: int where
  "CHUNK_SIZE = 32"

definition ZERO_BYTES32 :: bytes where
  "ZERO_BYTES32 = replicate 32 0"

section \<open>Chunk helpers of \<^verbatim>\<open>ssz/hashable_structure.py\<close>\<close>

text \<open>
  \<^verbatim>\<open>update_element_in_chunk(original_chunk, index, element)\<close>: the three guards in
  the order of the source, then the chunk rebuilt from the prefix before the slot, the
  element and the suffix after the slot. The slices \<^verbatim>\<open>chunk[:a]\<close> and
  \<^verbatim>\<open>chunk[b:]\<close> are taken at non-negative positions only (the index guard has
  passed), so they are \<open>take\<close> and \<open>drop\<close>.
\<close>

definition update_element_in_chunk :: "bytes \<Rightarrow> int \<Rightarrow> bytes \<Rightarrow> error + bytes" where
  "update_element_in_chunk original_chunk index element =
    (let element_size = int (length element);
         chunk_size = int (length original_chunk)
     in if element_size = 0 then Inl ValueError
        else if chunk_size mod element_size \<noteq> 0 then Inl ValueError
        else if \<not> (0 \<le> index \<and> index < chunk_size div element_size) then Inl IndexError
        else
          (let first_byte_index = index * element_size;
               last_byte_index = first_byte_index + element_size;
               prefix = take (nat first_byte_index) original_chunk;
               suffix = drop (nat last_byte_index) original_chunk
           in Inr (prefix @ element @ suffix)))"

text \<open>
  \<^verbatim>\<open>update_elements_in_chunk\<close> pipes the chunk through one
  \<^verbatim>\<open>update_element_in_chunk\<close> per item of the dictionary, in the dictionary's
  (insertion) order; the first exception ends the pipe.
\<close>

fun update_elements_in_chunk :: "bytes \<Rightarrow> (int \<times> bytes) list \<Rightarrow> error + bytes" where
  "update_elements_in_chunk original_chunk [] = Inr original_chunk"
| "update_elements_in_chunk original_chunk ((index, element) # rest) =
    (case update_element_in_chunk original_chunk index element of
       Inl err \<Rightarrow> Inl err
     | Inr chunk \<Rightarrow> update_elements_in_chunk chunk rest)"

text \<open>
  \<^verbatim>\<open>get_num_padding_elements\<close>: Python's \<^verbatim>\<open>//\<close> raises on a zero divisor and
  rounds towards minus infinity, as \<open>div\<close> on \<open>int\<close> does.
\<close>

definition get_num_padding_elements :: "int \<Rightarrow> int \<Rightarrow> int \<Rightarrow> error + int" where
  "get_num_padding_elements num_original_chunks num_original_elements element_size =
    (let total_size = num_original_chunks * CHUNK_SIZE;
         used_size = num_original_elements * element_size;
         padding_size = total_size - used_size
     in if element_size = 0 then Inl ZeroDivisionError
        else Inr (padding_size div element_size))"

text \<open>
  Python slices with a bound that may be negative: \<^verbatim>\<open>xs[:n]\<close> and
  \<^verbatim>\<open>xs[n:]\<close> count a negative \<open>n\<close> from the end and clamp at the start.
\<close>

definition py_take :: "int \<Rightarrow> 'a list \<Rightarrow> 'a list" where
  "py_take n xs = (if 0 \<le> n then take (nat n) xs else take (length xs - nat (- n)) xs)"

definition py_drop :: "int \<Rightarrow> 'a list \<Rightarrow> 'a list" where
  "py_drop n xs = (if 0 \<le> n then drop (nat n) xs else drop (length xs - nat (- n)) xs)"

text \<open>
  pyrsistent's \<^verbatim>\<open>pvector.__getitem__\<close> (a library the code calls): a negative
  index counts from the end, and an index outside the vector raises IndexError.
\<close>

definition pvector_getitem :: "'a list \<Rightarrow> int \<Rightarrow> error + 'a" where
  "pvector_getitem xs index =
    (let count = int (length xs);
         i = (if index < 0 then index + count else index)
     in if 0 \<le> i \<and> i < count then Inr (xs ! nat i) else Inl IndexError)"

text \<open>
  Python dictionaries keep insertion order and assigning to a key that is present keeps
  its place: an association list under \<open>AList.update\<close>. \<^verbatim>\<open>enumerate(xs, start)\<close>
  pairs each element with its position; \<^verbatim>\<open>{**a, **b}\<close> assigns the items of
  \<open>b\<close> into a copy of \<open>a\<close>; toolz's \<^verbatim>\<open>groupby(key, seq)\<close> collects the
  items under their keys, keys in order of first appearance.
\<close>

fun enumerate_from :: "int \<Rightarrow> 'a list \<Rightarrow> (int \<times> 'a) list" where
  "enumerate_from start [] = []"
| "enumerate_from start (x # xs) = (start, x) # enumerate_from (start + 1) xs"

definition dict_merge :: "('k \<times> 'v) list \<Rightarrow> ('k \<times> 'v) list \<Rightarrow> ('k \<times> 'v) list" where
  "dict_merge a b = foldl (\<lambda>d (k, v). AList.update k v d) a b"

definition groupby :: "('a \<Rightarrow> 'k) \<Rightarrow> 'a list \<Rightarrow> ('k \<times> 'a list) list" where
  "groupby key seq =
    foldl (\<lambda>d item.
        AList.update (key item)
          ((case map_of d (key item) of None \<Rightarrow> [] | Some items \<Rightarrow> items) @ [item]) d)
      [] seq"

text \<open>
  toolz's \<^verbatim>\<open>partition(n, seq, pad=p)\<close> is \<^verbatim>\<open>zip_longest\<close> over \<open>n\<close>
  copies of one iterator: groups of \<open>n\<close>, the last one filled up with \<open>p\<close>, and no
  group at all when \<open>n = 0\<close>.
\<close>

function partition_pad :: "nat \<Rightarrow> 'a list \<Rightarrow> 'a \<Rightarrow> 'a list list" where
  "partition_pad n seq pad =
    (if n = 0 \<or> seq = [] then []
     else (take n seq @ replicate (n - length (take n seq)) pad)
            # partition_pad n (drop n seq) pad)"
  by pat_completeness auto
termination
  by (relation "measure (\<lambda>(n, seq, pad). length seq)") auto

declare partition_pad.simps [simp del]

text \<open>
  \<^verbatim>\<open>get_updated_chunks\<close>, with the five parameters of its signature. The element
  size is read off the first updated element, or else the first appended element that
  still fits into the last chunk; with neither, no chunk is updated. The loop over the
  groups evaluates the chunk's updates, then \<^verbatim>\<open>original_chunks[chunk_index]\<close> (a
  pvector read), then \<^verbatim>\<open>update_elements_in_chunk\<close>. The groups have distinct
  keys, so the dictionary built from the yielded pairs lists them in the order yielded.
\<close>

fun updated_chunks_loop ::
  "(int \<times> int list) list \<Rightarrow> int \<Rightarrow> (int \<times> bytes) list \<Rightarrow> bytes list \<Rightarrow>
   error + (int \<times> bytes) list" where
  "updated_chunks_loop [] elements_per_chunk effective_updated_elements original_chunks = Inr []"
| "updated_chunks_loop ((chunk_index, element_indices) # groups) elements_per_chunk
      effective_updated_elements original_chunks =
    (let chunk_updates =
           foldl (\<lambda>d element_index.
               AList.update (element_index mod elements_per_chunk)
                 (the (map_of effective_updated_elements element_index)) d)
             [] element_indices
     in case pvector_getitem original_chunks chunk_index of
          Inl err \<Rightarrow> Inl err
        | Inr original_chunk \<Rightarrow>
            (case update_elements_in_chunk original_chunk chunk_updates of
               Inl err \<Rightarrow> Inl err
             | Inr updated_chunk \<Rightarrow>
                 (case updated_chunks_loop groups elements_per_chunk
                         effective_updated_elements original_chunks of
                    Inl err \<Rightarrow> Inl err
                  | Inr result \<Rightarrow> Inr ((chunk_index, updated_chunk) # result))))"

definition get_updated_chunks ::
  "(int \<times> bytes) list \<Rightarrow> bytes list \<Rightarrow> bytes list \<Rightarrow> int \<Rightarrow> int \<Rightarrow>
   error + (int \<times> bytes) list" where
  "get_updated_chunks updated_elements appended_elements original_chunks
      num_original_elements num_padding_elements =
    (let effective_appended_elements = py_take num_padding_elements appended_elements
     in case (case updated_elements of
                (_, element) # _ \<Rightarrow> Some element
              | [] \<Rightarrow> (case effective_appended_elements of
                         element # _ \<Rightarrow> Some element
                       | [] \<Rightarrow> None)) of
          None \<Rightarrow> Inr []
        | Some some_element \<Rightarrow>
            (let element_size = int (length some_element)
             in if element_size = 0 then Inl ZeroDivisionError
                else
                  (let elements_per_chunk = CHUNK_SIZE div element_size;
                       padding_elements_with_indices =
                         enumerate_from num_original_elements effective_appended_elements;
                       effective_updated_elements =
                         dict_merge updated_elements padding_elements_with_indices;
                       element_indices = map fst effective_updated_elements
                   in if elements_per_chunk = 0 then Inl ZeroDivisionError
                      else updated_chunks_loop
                             (groupby (\<lambda>element_index. element_index div elements_per_chunk)
                                element_indices)
                             elements_per_chunk effective_updated_elements original_chunks)))"

text \<open>\<^verbatim>\<open>get_appended_chunks\<close>, with the two parameters of its signature.\<close>

definition get_appended_chunks :: "bytes list \<Rightarrow> int \<Rightarrow> error + bytes list" where
  "get_appended_chunks appended_elements num_padding_elements =
    (if int (length appended_elements) \<le> num_padding_elements then Inr []
     else case appended_elements of
            [] \<Rightarrow> Inl IndexError
          | some_element # _ \<Rightarrow>
              (let element_size = int (length some_element)
               in if element_size = 0 then Inl ZeroDivisionError
                  else
                    (let elements_per_chunk = CHUNK_SIZE div element_size;
                         chunk_partitioned_elements =
                           partition_pad (nat elements_per_chunk)
                             (py_drop num_padding_elements appended_elements)
                             (replicate (nat element_size) 0)
                     in Inr (map concat chunk_partitioned_elements))))"

section \<open>Sedes, hash tree and length mixing\<close>

text \<open>
  The sedes is a capability the caller provides: the structure calls
  \<^verbatim>\<open>sedes.serialize_element_for_tree(index, element)\<close>, which may raise, and reads
  \<^verbatim>\<open>sedes.chunk_count\<close>.
\<close>

record 'a composite_sedes =
  serialize_element_for_tree :: "int \<Rightarrow> 'a \<Rightarrow> error + bytes"
  chunk_count :: int

text \<open>
  Modelled from the spec: the class HashTree of \<^verbatim>\<open>ssz/hash_tree.py\<close>, which is not
  among the source files. The spec gives it the observers \<^verbatim>\<open>chunks\<close> (the ordered
  leaves) and \<^verbatim>\<open>root\<close> (a digest that is always materialised); those two are all
  the structure's properties read.
\<close>

record hash_tree =
  chunks :: "bytes list"
  root :: bytes

text \<open>
  The 32-byte little-endian encoding of a count, byte by byte from the least
  significant one, and the number a little-endian byte string stands for.
\<close>

fun to_bytes_little :: "nat \<Rightarrow> nat \<Rightarrow> bytes" where
  "to_bytes_little 0 n = []"
| "to_bytes_little (Suc k) n = of_nat (n mod 256) # to_bytes_little k (n div 256)"

fun from_bytes_little :: "bytes \<Rightarrow> nat" where
  "from_bytes_little [] = 0"
| "from_bytes_little (b # bs) = unat b + 256 * from_bytes_little bs"

definition le256 :: "nat \<Rightarrow> bytes" where
  "le256 k = to_bytes_little 32 k"

text \<open>
  Modelled from the spec: \<^verbatim>\<open>mix_in_length\<close> of \<^verbatim>\<open>ssz/utils.py\<close>, which is not
  among the source files. The spec's length mixing is
  \<open>root = H(raw_root \<parallel> le256(len))\<close>; the hash function \<open>H\<close> is a parameter.
\<close>

definition mix_in_length :: "(bytes \<Rightarrow> bytes) \<Rightarrow> bytes \<Rightarrow> int \<Rightarrow> bytes" where
  "mix_in_length H raw length_to_mix = H (raw @ le256 (nat length_to_mix))"

section \<open>Hashable structures\<close>

text \<open>
  A structure holds the three attributes its constructor stores, and the class it was
  built as (\<^verbatim>\<open>HashableVector\<close> extends the base structure, \<^verbatim>\<open>HashableList\<close> the
  resizable one).
\<close>

datatype structure_class = HashableVector | HashableList

record 'a hashable_structure =
  cls :: structure_class
  elements :: "'a list"
  hash_tree :: hash_tree
  sedes :: "'a composite_sedes"


definition raw_root :: "'a hashable_structure \<Rightarrow> bytes" where
  "raw_root s = root (hash_tree s)"

definition structure_len :: "'a hashable_structure \<Rightarrow> int" where
  "structure_len s = int (length (elements s))"

definition structure_getitem :: "'a hashable_structure \<Rightarrow> int \<Rightarrow> error + 'a" where
  "structure_getitem s index = pvector_getitem (elements s) index"


definition HashableList_root :: "(bytes \<Rightarrow> bytes) \<Rightarrow> 'a hashable_structure \<Rightarrow> bytes" where
  "HashableList_root H s = mix_in_length H (raw_root s) (structure_len s)"


text \<open>
  The list comprehension over \<^verbatim>\<open>enumerate(elements, start)\<close> and the dictionary
  comprehension over the updated items: each element is serialized in order, and the
  first exception of the sedes ends the comprehension.
\<close>

fun serialize_enumerated ::
  "'a composite_sedes \<Rightarrow> int \<Rightarrow> 'a list \<Rightarrow> error + bytes list" where
  "serialize_enumerated sd start [] = Inr []"
| "serialize_enumerated sd start (element # rest) =
    (case serialize_element_for_tree sd start element of
       Inl err \<Rightarrow> Inl err
     | Inr serialized \<Rightarrow>
         (case serialize_enumerated sd (start + 1) rest of
            Inl err \<Rightarrow> Inl err
          | Inr others \<Rightarrow> Inr (serialized # others)))"

fun serialize_items ::
  "'a composite_sedes \<Rightarrow> (int \<times> 'a) list \<Rightarrow> error + (int \<times> bytes) list" where
  "serialize_items sd [] = Inr []"
| "serialize_items sd ((index, element) # rest) =
    (case serialize_element_for_tree sd index element of
       Inl err \<Rightarrow> Inl err
     | Inr serialized \<Rightarrow>
         (case serialize_items sd rest of
            Inl err \<Rightarrow> Inl err
          | Inr others \<Rightarrow> Inr ((index, serialized) # others)))"

text \<open>
  \<^verbatim>\<open>BaseHashableStructure.from_iterable\<close>. After the elements are serialized, the
  source calls \<^verbatim>\<open>get_appended_chunks(serialized_elements, 0, 0)\<close>: three positional
  arguments for a function of two parameters. Python raises TypeError at the call, before
  the function's body runs, so the statements after it (the tree's computation and the
  constructor) are never reached.
\<close>

definition from_iterable ::
  "'a list \<Rightarrow> 'a composite_sedes \<Rightarrow> error + 'a hashable_structure" where
  "from_iterable iterable sd =
    (case serialize_enumerated sd 0 iterable of
       Inl err \<Rightarrow> Inl err
     | Inr serialized_elements \<Rightarrow> Inl TypeError)"

section \<open>Evolvers\<close>

text \<open>
  An evolver holds a reference to the structure it was made from, the dictionary of
  updated elements and the list of appended elements. Each operation returns the
  evolver's whole state, the original structure included, so an operation that changed
  the original would show in the state it returns.
\<close>

datatype evolver_class = HashableStructureEvolver | ResizableHashableStructureEvolver

record 'a structure_evolver =
  evolver_cls :: evolver_class
  original_structure :: "'a hashable_structure"
  updated_elements :: "(int \<times> 'a) list"
  appended_elements :: "'a list"

definition evolver :: "'a hashable_structure \<Rightarrow> 'a structure_evolver" where
  "evolver s =
    \<lparr>evolver_cls =
        (case cls s of
           HashableVector \<Rightarrow> HashableStructureEvolver
         | HashableList \<Rightarrow> ResizableHashableStructureEvolver),
      original_structure = s,
      updated_elements = [],
      appended_elements = []\<rparr>"

definition evolver_len :: "'a structure_evolver \<Rightarrow> int" where
  "evolver_len e = structure_len (original_structure e)"

definition evolver_getitem :: "'a structure_evolver \<Rightarrow> int \<Rightarrow> error + 'a" where
  "evolver_getitem e index =
    (case map_of (updated_elements e) index of
       Some element \<Rightarrow> Inr element
     | None \<Rightarrow> structure_getitem (original_structure e) index)"

definition evolver_setitem ::
  "'a structure_evolver \<Rightarrow> int \<Rightarrow> 'a \<Rightarrow> error + 'a structure_evolver" where
  "evolver_setitem e index element =
    (if 0 \<le> index \<and> index < evolver_len e
     then Inr (e\<lparr>updated_elements := AList.update index element (updated_elements e)\<rparr>)
     else Inl IndexError)"

definition evolver_set ::
  "'a structure_evolver \<Rightarrow> int \<Rightarrow> 'a \<Rightarrow> error + 'a structure_evolver" where
  "evolver_set e index element = evolver_setitem e index element"

text \<open>
  \<^verbatim>\<open>append\<close> and \<^verbatim>\<open>extend\<close> are methods of the resizable evolver only; on the base
  evolver the attribute lookup fails.
\<close>

definition evolver_append ::
  "'a structure_evolver \<Rightarrow> 'a \<Rightarrow> error + 'a structure_evolver" where
  "evolver_append e element =
    (case evolver_cls e of
       HashableStructureEvolver \<Rightarrow> Inl AttributeError
     | ResizableHashableStructureEvolver \<Rightarrow>
         Inr (e\<lparr>appended_elements := appended_elements e @ [element]\<rparr>))"

definition evolver_extend ::
  "'a structure_evolver \<Rightarrow> 'a list \<Rightarrow> error + 'a structure_evolver" where
  "evolver_extend e new_elements =
    (case evolver_cls e of
       HashableStructureEvolver \<Rightarrow> Inl AttributeError
     | ResizableHashableStructureEvolver \<Rightarrow>
         Inr (e\<lparr>appended_elements := appended_elements e @ new_elements\<rparr>))"

definition is_dirty :: "'a structure_evolver \<Rightarrow> bool" where
  "is_dirty e \<longleftrightarrow> updated_elements e \<noteq> [] \<or> appended_elements e \<noteq> []"

text \<open>
  \<^verbatim>\<open>persistent\<close>. A clean evolver returns the original structure. A dirty one
  serializes the updated and the appended elements and then calls
  \<^verbatim>\<open>get_updated_chunks(updated_elements, appended_elements, chunks, len)\<close>: four
  positional arguments for a function of five required parameters
  (\<^verbatim>\<open>num_padding_elements\<close> is missing). Python raises TypeError at that call, so the
  statements after it (the call of \<^verbatim>\<open>get_appended_chunks\<close> with three arguments for
  two parameters, the new element vector, the new tree and the constructor) are never
  reached.
\<close>

definition persistent :: "'a structure_evolver \<Rightarrow> error + 'a hashable_structure" where
  "persistent e =
    (if \<not> is_dirty e then Inr (original_structure e)
     else
       case serialize_items (sedes (original_structure e)) (updated_elements e) of
         Inl err \<Rightarrow> Inl err
       | Inr updated \<Rightarrow>
           (case serialize_enumerated (sedes (original_structure e))
                   (structure_len (original_structure e)) (appended_elements e) of
              Inl err \<Rightarrow> Inl err
            | Inr appended \<Rightarrow> Inl TypeError))"

section \<open>Operations of the structures\<close>

text \<open>
  \<^verbatim>\<open>mset(*args)\<close>: the arguments are index, value, index, value, ...; they are given
  here as the list of complete pairs and the unpaired last argument, if there is one
  (then the number of arguments is odd).
\<close>

fun set_pairs ::
  "'a structure_evolver \<Rightarrow> (int \<times> 'a) list \<Rightarrow> error + 'a structure_evolver" where
  "set_pairs e [] = Inr e"
| "set_pairs e ((index, element) # rest) =
    (case evolver_setitem e index element of
       Inl err \<Rightarrow> Inl err
     | Inr e' \<Rightarrow> set_pairs e' rest)"

definition mset_structure ::
  "'a hashable_structure \<Rightarrow> (int \<times> 'a) list \<Rightarrow> int option \<Rightarrow> error + 'a hashable_structure" where
  "mset_structure s pairs unpaired =
    (if unpaired \<noteq> None then Inl TypeError
     else case set_pairs (evolver s) pairs of
            Inl err \<Rightarrow> Inl err
          | Inr e \<Rightarrow> persistent e)"

definition set_structure ::
  "'a hashable_structure \<Rightarrow> int \<Rightarrow> 'a \<Rightarrow> error + 'a hashable_structure" where
  "set_structure s index element = mset_structure s [(index, element)] None"

text \<open>
  The resizable structure: \<^verbatim>\<open>append\<close>, \<^verbatim>\<open>extend\<close>, \<^verbatim>\<open>+\<close> and \<^verbatim>\<open>*\<close>.
  \<^verbatim>\<open>HashableVector\<close> has none of them: there a method call fails at the attribute
  lookup and an operator with TypeError.
\<close>

definition append_structure ::
  "'a hashable_structure \<Rightarrow> 'a \<Rightarrow> error + 'a hashable_structure" where
  "append_structure s element =
    (case cls s of
       HashableVector \<Rightarrow> Inl AttributeError
     | HashableList \<Rightarrow>
         (case evolver_append (evolver s) element of
            Inl err \<Rightarrow> Inl err
          | Inr e \<Rightarrow> persistent e))"

definition extend_structure ::
  "'a hashable_structure \<Rightarrow> 'a list \<Rightarrow> error + 'a hashable_structure" where
  "extend_structure s new_elements =
    (case cls s of
       HashableVector \<Rightarrow> Inl AttributeError
     | HashableList \<Rightarrow>
         (case evolver_extend (evolver s) new_elements of
            Inl err \<Rightarrow> Inl err
          | Inr e \<Rightarrow> persistent e))"

definition add_structure ::
  "'a hashable_structure \<Rightarrow> 'a list \<Rightarrow> error + 'a hashable_structure" where
  "add_structure s new_elements =
    (case cls s of
       HashableVector \<Rightarrow> Inl TypeError
     | HashableList \<Rightarrow> extend_structure s new_elements)"

text \<open>
  \<^verbatim>\<open>__mul__\<close>, with the operation behind \<^verbatim>\<open>self + self\<close> as a parameter, so that
  the recursion can be studied on its own; \<open>mul_structure\<close> is the method as the class
  has it. The right operand of \<^verbatim>\<open>self + self\<close> is iterated, which yields its
  elements.
\<close>

function mul_with ::
  "('a hashable_structure \<Rightarrow> 'a list \<Rightarrow> error + 'a hashable_structure) \<Rightarrow>
   'a hashable_structure \<Rightarrow> int \<Rightarrow> error + 'a hashable_structure" where
  "mul_with add s n_times =
    (if n_times \<le> 0 then Inl ValueError
     else if n_times = 1 then Inr s
     else case add s (elements s) of
            Inl err \<Rightarrow> Inl err
          | Inr doubled \<Rightarrow> mul_with add doubled (n_times - 1))"
  by pat_completeness auto
termination
  by (relation "measure (\<lambda>(add, s, n_times). nat n_times)") auto

declare mul_with.simps [simp del]

definition mul_structure ::
  "'a hashable_structure \<Rightarrow> int \<Rightarrow> error + 'a hashable_structure" where
  "mul_structure s n_times =
    (case cls s of
       HashableVector \<Rightarrow> Inl TypeError
     | HashableList \<Rightarrow> mul_with add_structure s n_times)"

section \<open>Sequences of calls on an evolver\<close>

text \<open>
  A client's calls on one evolver. A call that raises leaves the evolver as it was (the
  source raises before it assigns), and the client may go on with the next call.
\<close>

datatype 'a edit = Set int 'a | Append 'a | Extend "'a list"

fun apply_edit :: "'a structure_evolver \<Rightarrow> 'a edit \<Rightarrow> error + 'a structure_evolver" where
  "apply_edit e (Set index element) = evolver_set e index element"
| "apply_edit e (Append element) = evolver_append e element"
| "apply_edit e (Extend new_elements) = evolver_extend e new_elements"

fun apply_edits :: "'a structure_evolver \<Rightarrow> 'a edit list \<Rightarrow> 'a structure_evolver" where
  "apply_edits e [] = e"
| "apply_edits e (ed # eds) =
    (case apply_edit e ed of
       Inl err \<Rightarrow> apply_edits e eds
     | Inr e' \<Rightarrow> apply_edits e' eds)"

section \<open>Example values\<close>

text \<open>
  A sedes for lists of at most two 128-bit unsigned integers (16 bytes each, little
  endian, so one chunk in all), and the list \<open>[10]\<close> over it: its single chunk holds
  the element and sixteen bytes of padding, and the root of a one-chunk tree is the chunk.
\<close>

definition uint128_sedes :: "nat composite_sedes" where
  "uint128_sedes =
    \<lparr>serialize_element_for_tree =
        (\<lambda>index element.
           if element < 2 ^ 128 then Inr (to_bytes_little 16 element) else Inl SedesError),
      chunk_count = 1\<rparr>"

definition example_list :: "nat hashable_structure" where
  "example_list =
    \<lparr>cls = HashableList,
      elements = [10],
      hash_tree =
        \<lparr>chunks = [to_bytes_little 16 10 @ replicate 16 0],
          root = to_bytes_little 16 10 @ replicate 16 0\<rparr>,
      sedes = uint128_sedes\<rparr>"

text \<open>The evolver of the example list after \<^verbatim>\<open>append(11)\<close>, and after \<^verbatim>\<open>set(0, 12)\<close>.\<close>

definition example_appended :: "nat structure_evolver" where
  "example_appended = (evolver example_list)\<lparr>appended_elements := [11]\<rparr>"

definition example_updated :: "nat structure_evolver" where
  "example_updated = (evolver example_list)\<lparr>updated_elements := [(0, 12)]\<rparr>"

section \<open>The evolver's read as the spec words it\<close>

text \<open>
  The spec's \<^verbatim>\<open>get(index)\<close>: the updated element if one is recorded, else the
  original's element if the index is within the original, else the appended element at
  \<open>index - len(original)\<close> if that is within the appended elements, else
  IndexOutOfRange. It is compared below with \<open>evolver_getitem\<close>, the read of the source.
\<close>

definition get_as_specified :: "'a structure_evolver \<Rightarrow> int \<Rightarrow> error + 'a" where
  "get_as_specified e index =
    (case map_of (updated_elements e) index of
       Some element \<Rightarrow> Inr element
     | None \<Rightarrow>
         (let n = structure_len (original_structure e)
          in if 0 \<le> index \<and> index < n
             then Inr (elements (original_structure e) ! nat index)
             else if n \<le> index \<and> index - n < int (length (appended_elements e))
             then Inr (appended_elements e ! nat (index - n))
             else Inl IndexError))"

section \<open>Properties of the chunk helpers\<close>

lemma update_element_in_chunk_ValueError:
  "update_element_in_chunk c i e = Inl ValueError \<longleftrightarrow>
     length e = 0 \<or> int (length c) mod int (length e) \<noteq> 0"
  by (simp add: update_element_in_chunk_def Let_def)

lemma update_element_in_chunk_IndexError:
  "update_element_in_chunk c i e = Inl IndexError \<longleftrightarrow>
     length e \<noteq> 0 \<and> int (length c) mod int (length e) = 0 \<and>
     \<not> (0 \<le> i \<and> i < int (length c) div int (length e))"
  by (simp add: update_element_in_chunk_def Let_def)

lemma update_element_in_chunk_Inr:
  assumes "length e \<noteq> 0" "int (length c) mod int (length e) = 0"
    "0 \<le> i" "i < int (length c) div int (length e)"
  shows "update_element_in_chunk c i e =
     Inr (take (nat i * length e) c @ e @ drop (nat i * length e + length e) c)"
proof -
  have a: "nat (i * int (length e)) = nat i * length e"
    using assms(3) by (simp add: nat_mult_distrib)
  have b: "nat (i * int (length e) + int (length e)) = nat i * length e + length e"
    using assms(3) by (simp add: nat_add_distrib nat_mult_distrib)
  show ?thesis
    using assms by (simp add: update_element_in_chunk_def Let_def a b)
qed

lemma slot_within_chunk:
  assumes "length e \<noteq> 0" "int (length c) mod int (length e) = 0"
    "0 \<le> i" "i < int (length c) div int (length e)"
  shows "nat i * length e + length e \<le> length c"
proof -
  have "nat i < length c div length e"
    using assms(3,4) by (simp add: zdiv_int [symmetric] nat_less_iff)
  then have "Suc (nat i) \<le> length c div length e" by simp
  then have "Suc (nat i) * length e \<le> (length c div length e) * length e"
    by (rule mult_le_mono1)
  also have "\<dots> \<le> length c" by simp
  finally show ?thesis by (simp add: add.commute)
qed

lemma replaced_slot_nth:
  assumes "k + length e \<le> length c" "j < length c"
  shows "(take k c @ e @ drop (k + length e) c) ! j =
     (if k \<le> j \<and> j < k + length e then e ! (j - k) else c ! j)"
proof -
  have lt: "length (take k c) = k" using assms(1) by simp
  consider "j < k" | "k \<le> j" "j < k + length e" | "k + length e \<le> j" by linarith
  then show ?thesis
  proof cases
    case 1
    then show ?thesis using assms by (simp add: nth_append)
  next
    case 2
    then have "j - k < length e" by linarith
    with 2 show ?thesis using assms by (simp add: nth_append min_def)
  next
    case 3
    then have "(take k c @ e @ drop (k + length e) c) ! j =
        drop (k + length e) c ! (j - k - length e)"
      using assms by (auto simp add: nth_append min_def)
    also have "\<dots> = c ! j" using 3 assms by simp
    finally show ?thesis using 3 by simp
  qed
qed

text \<open>
  Claim C6. For a chunk of \<open>CHUNK_SIZE\<close> bytes, \<^verbatim>\<open>update_element_in_chunk\<close> raises
  ValueError (the spec's InvalidElementSize) exactly when the element is empty or its
  length does not divide the chunk size; it raises IndexError (IndexOutOfRange) exactly
  when the element size is valid and the index is outside
  \<open>[0, CHUNK_SIZE div element_size)\<close>; otherwise it returns a chunk of the same length
  whose bytes are those of the element inside the slot of the index and those of the
  original chunk everywhere else.
\<close>

theorem update_element_in_chunk_contract:
  assumes "int (length original_chunk) = CHUNK_SIZE"
  shows "(update_element_in_chunk original_chunk index element = Inl ValueError \<longleftrightarrow>
            length element = 0 \<or> CHUNK_SIZE mod int (length element) \<noteq> 0) \<and>
         (update_element_in_chunk original_chunk index element = Inl IndexError \<longleftrightarrow>
            length element \<noteq> 0 \<and> CHUNK_SIZE mod int (length element) = 0 \<and>
            \<not> (0 \<le> index \<and> index < CHUNK_SIZE div int (length element))) \<and>
         (length element \<noteq> 0 \<and> CHUNK_SIZE mod int (length element) = 0 \<and>
          0 \<le> index \<and> index < CHUNK_SIZE div int (length element) \<longrightarrow>
            (\<exists>chunk. update_element_in_chunk original_chunk index element = Inr chunk \<and>
               length chunk = length original_chunk \<and>
               (\<forall>j < length chunk.
                  chunk ! j =
                    (if nat index * length element \<le> j \<and>
                        j < nat index * length element + length element
                     then element ! (j - nat index * length element)
                     else original_chunk ! j))))"
proof (intro conjI impI)
  show "update_element_in_chunk original_chunk index element = Inl ValueError \<longleftrightarrow>
      length element = 0 \<or> CHUNK_SIZE mod int (length element) \<noteq> 0"
    using assms by (simp add: update_element_in_chunk_ValueError)
  show "update_element_in_chunk original_chunk index element = Inl IndexError \<longleftrightarrow>
      length element \<noteq> 0 \<and> CHUNK_SIZE mod int (length element) = 0 \<and>
      \<not> (0 \<le> index \<and> index < CHUNK_SIZE div int (length element))"
    using assms by (simp add: update_element_in_chunk_IndexError)
next
  assume ok: "length element \<noteq> 0 \<and> CHUNK_SIZE mod int (length element) = 0 \<and>
      0 \<le> index \<and> index < CHUNK_SIZE div int (length element)"
  let ?k = "nat index * length element"
  let ?r = "take ?k original_chunk @ element @ drop (?k + length element) original_chunk"
  from ok assms have pre: "length element \<noteq> 0"
      "int (length original_chunk) mod int (length element) = 0"
      "0 \<le> index" "index < int (length original_chunk) div int (length element)"
    by simp_all
  have res: "update_element_in_chunk original_chunk index element = Inr ?r"
    by (rule update_element_in_chunk_Inr [OF pre])
  have fits: "?k + length element \<le> length original_chunk"
    by (rule slot_within_chunk [OF pre])
  have len: "length ?r = length original_chunk"
    using fits by simp
  have "\<forall>j < length ?r. ?r ! j =
      (if ?k \<le> j \<and> j < ?k + length element then element ! (j - ?k) else original_chunk ! j)"
    using fits len by (simp add: replaced_slot_nth)
  with res len show "\<exists>chunk. update_element_in_chunk original_chunk index element = Inr chunk \<and>
      length chunk = length original_chunk \<and>
      (\<forall>j < length chunk.
         chunk ! j =
           (if ?k \<le> j \<and> j < ?k + length element
            then element ! (j - ?k) else original_chunk ! j))"
    by blast
qed

theorem update_element_in_chunk_contract_witness:
  "int (length ZERO_BYTES32) = CHUNK_SIZE \<and>
   update_element_in_chunk ZERO_BYTES32 1 (replicate 16 170) \<noteq> Inl ValueError \<and>
   update_element_in_chunk ZERO_BYTES32 1 (replicate 16 170) \<noteq> Inl IndexError \<and>
   (\<exists>chunk. update_element_in_chunk ZERO_BYTES32 1 (replicate 16 170) = Inr chunk \<and>
      length chunk = 32 \<and> chunk ! 15 = 0 \<and> chunk ! 16 = 170 \<and> chunk ! 31 = 170) \<and>
   update_element_in_chunk ZERO_BYTES32 2 (replicate 16 170) = Inl IndexError \<and>
   update_element_in_chunk ZERO_BYTES32 0 (replicate 5 170) = Inl ValueError \<and>
   update_element_in_chunk ZERO_BYTES32 0 [] = Inl ValueError"
proof -
  have h: "int (length ZERO_BYTES32) = CHUNK_SIZE"
    by (simp add: ZERO_BYTES32_def CHUNK_SIZE_def)
  note a = update_element_in_chunk_contract [OF h, of 1 "replicate 16 170"]
  note b = update_element_in_chunk_contract [OF h, of 2 "replicate 16 170"]
  note c = update_element_in_chunk_contract [OF h, of 0 "replicate 5 170"]
  note d = update_element_in_chunk_contract [OF h, of 0 "[]"]
  have 1: "update_element_in_chunk ZERO_BYTES32 1 (replicate 16 170) \<noteq> Inl ValueError"
    using a by (simp add: CHUNK_SIZE_def)
  have 2: "update_element_in_chunk ZERO_BYTES32 1 (replicate 16 170) \<noteq> Inl IndexError"
    using a by (simp add: CHUNK_SIZE_def)
  from a obtain chunk where
    c1: "update_element_in_chunk ZERO_BYTES32 1 (replicate 16 170) = Inr chunk" and
    c2: "length chunk = length ZERO_BYTES32" and
    c3: "\<forall>j < length chunk. chunk ! j =
           (if 16 \<le> j \<and> j < 32 then replicate 16 170 ! (j - 16) else ZERO_BYTES32 ! j)"
    by (auto simp add: CHUNK_SIZE_def)
  have len: "length chunk = 32" using c2 by (simp add: ZERO_BYTES32_def)
  have 3: "chunk ! 15 = 0 \<and> chunk ! 16 = 170 \<and> chunk ! 31 = 170"
    using c3 len by (simp add: ZERO_BYTES32_def)
  have 4: "update_element_in_chunk ZERO_BYTES32 2 (replicate 16 170) = Inl IndexError"
    using b by (simp add: CHUNK_SIZE_def)
  have 5: "update_element_in_chunk ZERO_BYTES32 0 (replicate 5 170) = Inl ValueError"
    using c by (simp add: CHUNK_SIZE_def)
  have 6: "update_element_in_chunk ZERO_BYTES32 0 [] = Inl ValueError"
    using d by simp
  from h 1 2 c1 len 3 4 5 6 show ?thesis by blast
qed

section \<open>Little-endian encoding\<close>

lemma length_to_bytes_little: "length (to_bytes_little k n) = k"
  by (induction k arbitrary: n) simp_all

lemma from_to_bytes_little: "from_bytes_little (to_bytes_little k n) = n mod 256 ^ k"
proof (induction k arbitrary: n)
  case 0
  then show ?case by simp
next
  case (Suc k)
  have "from_bytes_little (to_bytes_little (Suc k) n) =
      n mod 256 + 256 * ((n div 256) mod 256 ^ k)"
    by (simp add: Suc unat_of_nat)
  also have "\<dots> = n mod 256 ^ Suc k"
    by (simp add: mod_mult2_eq)
  finally show ?case .
qed

section \<open>The evolver and its original structure\<close>

lemma apply_edit_original:
  "apply_edit e ed = Inr e' \<Longrightarrow> original_structure e' = original_structure e"
  by (cases ed)
    (auto simp add: evolver_set_def evolver_setitem_def evolver_append_def evolver_extend_def
      split: if_splits evolver_class.splits)

lemma apply_edits_original:
  "original_structure (apply_edits e E) = original_structure e"
proof (induction E arbitrary: e)
  case Nil
  then show ?case by simp
next
  case (Cons ed E)
  show ?case
  proof (cases "apply_edit e ed")
    case (Inl err)
    then show ?thesis by (simp add: Cons.IH)
  next
    case (Inr e')
    then show ?thesis by (simp add: Cons.IH apply_edit_original)
  qed
qed


lemma original_structure_evolver: "original_structure (evolver s) = s"
  by (simp add: evolver_def)



text \<open>
  Claim C9. The length of an evolver is the length of its original structure, whatever
  has been staged: after any sequence of calls it is still \<open>len(s)\<close>, and
  \<^verbatim>\<open>set\<close> accepts exactly the indices \<open>0 \<le> index < len(s)\<close>. On a resizable
  evolver \<^verbatim>\<open>append\<close> and \<^verbatim>\<open>extend\<close> succeed and stage their elements in the
  appended list, and the length stays what it was.
\<close>

theorem evolver_len_is_original_len:
  "evolver_len (apply_edits (evolver s) E) = structure_len s \<and>
   ((\<exists>e'. evolver_set (apply_edits (evolver s) E) index v = Inr e') \<longleftrightarrow>
      0 \<le> index \<and> index < structure_len s) \<and>
   (evolver_cls e = ResizableHashableStructureEvolver \<longrightarrow>
      (\<exists>e1 e2. evolver_append e v = Inr e1 \<and> evolver_extend e1 vs = Inr e2 \<and>
         appended_elements e2 = appended_elements e @ [v] @ vs \<and>
         evolver_len e1 = evolver_len e \<and> evolver_len e2 = evolver_len e))"
proof (intro conjI impI)
  show len: "evolver_len (apply_edits (evolver s) E) = structure_len s"
    by (simp add: evolver_len_def apply_edits_original original_structure_evolver)
  show "(\<exists>e'. evolver_set (apply_edits (evolver s) E) index v = Inr e') \<longleftrightarrow>
      0 \<le> index \<and> index < structure_len s"
    using len by (simp add: evolver_set_def evolver_setitem_def)
next
  assume "evolver_cls e = ResizableHashableStructureEvolver"
  then show "\<exists>e1 e2. evolver_append e v = Inr e1 \<and> evolver_extend e1 vs = Inr e2 \<and>
         appended_elements e2 = appended_elements e @ [v] @ vs \<and>
         evolver_len e1 = evolver_len e \<and> evolver_len e2 = evolver_len e"
    by (simp add: evolver_append_def evolver_extend_def evolver_len_def)
qed

theorem evolver_len_is_original_len_witness:
  "evolver_cls (evolver example_list) = ResizableHashableStructureEvolver \<and>
   evolver_append (evolver example_list) 11 = Inr example_appended \<and>
   appended_elements example_appended = [11] \<and>
   evolver_len example_appended = 1 \<and>
   evolver_len (apply_edits (evolver example_list) [Append 11, Extend [12, 13]]) = 1 \<and>
   (\<forall>e'. evolver_set (apply_edits (evolver example_list) [Append 11, Extend [12, 13]]) 1 11
      \<noteq> Inr e')"
proof -
  have c: "evolver_cls (evolver example_list) = ResizableHashableStructureEvolver"
    by (simp add: evolver_def example_list_def)
  have l: "structure_len example_list = 1"
    by (simp add: structure_len_def example_list_def)
  have a: "evolver_append (evolver example_list) 11 = Inr example_appended"
    by (simp add: evolver_append_def example_appended_def evolver_def example_list_def)
  note t1 = evolver_len_is_original_len
    [where s = example_list and E = "[Append 11, Extend [12, 13]]" and index = 1 and v = 11
      and e = "evolver example_list" and vs = "[]"]
  have "evolver_len example_appended = 1"
    using t1 a c l by (auto simp add: evolver_len_def original_structure_evolver)
  moreover have "appended_elements example_appended = [11]"
    by (simp add: example_appended_def)
  moreover have "evolver_len (apply_edits (evolver example_list) [Append 11, Extend [12, 13]]) = 1"
    using t1 l by simp
  moreover have "\<forall>e'. evolver_set (apply_edits (evolver example_list)
      [Append 11, Extend [12, 13]]) 1 11 \<noteq> Inr e'"
    using t1 l by simp
  ultimately show ?thesis using c a by blast
qed

text \<open>
  Claim C10. \<^verbatim>\<open>s.mset()\<close> with no arguments returns \<open>s\<close> itself: a fresh
  evolver is not dirty, and \<^verbatim>\<open>persistent\<close> on an evolver that is not dirty returns
  the original structure it holds.
\<close>

theorem mset_without_arguments_returns_self:
  "mset_structure s [] None = Inr s \<and>
   \<not> is_dirty (evolver s) \<and>
   (\<not> is_dirty e \<longrightarrow> persistent e = Inr (original_structure e))"
  by (simp add: mset_structure_def persistent_def is_dirty_def evolver_def)

theorem mset_without_arguments_returns_self_witness:
  "\<not> is_dirty (evolver example_list) \<and>
   persistent (evolver example_list) = Inr example_list \<and>
   mset_structure example_list [] None = Inr example_list"
  using mset_without_arguments_returns_self [of example_list "evolver example_list"]
  by (simp add: original_structure_evolver)

section \<open>Reads and writes through the evolver\<close>

lemma evolver_list_facts:
  "structure_len example_list = 1"
  "evolver_cls (evolver example_list) = ResizableHashableStructureEvolver"
  "original_structure (evolver example_list) = example_list"
  by (simp_all add: structure_len_def example_list_def evolver_def)

text \<open>
  Claim C3, as stated, fails on the code. The evolver of the list \<open>[10]\<close> after
  \<^verbatim>\<open>append(11)\<close> holds a pending appended element for index 1; the spec's read
  returns it, but \<^verbatim>\<open>__getitem__\<close> never looks at the appended elements and passes
  the index to the original structure, which raises IndexError.
\<close>

theorem evolver_getitem_appended_counterexample:
  "evolver_append (evolver example_list) 11 = Inr example_appended \<and>
   evolver_getitem example_appended 1 = Inl IndexError \<and>
   get_as_specified example_appended 1 = Inr 11"
  by (simp add: evolver_append_def example_appended_def evolver_def example_list_def
      evolver_getitem_def structure_getitem_def pvector_getitem_def get_as_specified_def
      structure_len_def Let_def)

text \<open>
  Claim C3, amended. \<^verbatim>\<open>e.get(index)\<close> returns the pending updated element at the
  index if one is recorded; else the element of the original structure at the index if
  the index is within the original's range, where a negative index from \<open>-len(s)\<close> on
  counts from the end (pvector indexing); at any other index it raises IndexError.
  Appended elements are never read: the result does not depend on them.
\<close>

theorem evolver_getitem_reads:
  "evolver_getitem e index =
     (case map_of (updated_elements e) index of
        Some element \<Rightarrow> Inr element
      | None \<Rightarrow>
          (if 0 \<le> index \<and> index < structure_len (original_structure e)
           then Inr (elements (original_structure e) ! nat index)
           else if - structure_len (original_structure e) \<le> index \<and> index < 0
           then Inr (elements (original_structure e) !
                  nat (index + structure_len (original_structure e)))
           else Inl IndexError)) \<and>
   evolver_getitem (e\<lparr>appended_elements := xs\<rparr>) index = evolver_getitem e index"
  by (auto simp add: evolver_getitem_def structure_getitem_def pvector_getitem_def
      structure_len_def Let_def split: option.splits)

text \<open>
  Claim C4, as stated, fails on the code: on the evolver of the list \<open>[10]\<close>,
  \<^verbatim>\<open>append(11)\<close> succeeds and the following \<^verbatim>\<open>set(len(original) + 0, 12)\<close>
  raises IndexError, because \<^verbatim>\<open>__setitem__\<close> accepts the indices of the original
  only.
\<close>

theorem set_after_append_counterexample:
  "evolver_append (evolver example_list) 11 = Inr example_appended \<and>
   evolver_setitem example_appended (structure_len example_list + 0) 12 = Inl IndexError"
  by (simp add: evolver_append_def example_appended_def evolver_def example_list_def
      evolver_setitem_def evolver_len_def structure_len_def)

text \<open>
  Claim C4, amended. Within one evolver, \<^verbatim>\<open>set(i, v)\<close> followed by
  \<^verbatim>\<open>set(i, w)\<close>, for an index within the original, both succeed and leave \<open>w\<close> as
  the pending element at \<open>i\<close>: the evolver reads \<open>w\<close> there and reads every other
  index as before. Within a resizable evolver, \<^verbatim>\<open>append(v)\<close> succeeds and a
  following \<^verbatim>\<open>set(len(original) + 0, w)\<close> raises IndexError.
\<close>

theorem set_twice_and_set_after_append:
  "(0 \<le> i \<and> i < evolver_len e \<longrightarrow>
      (\<exists>e1 e2. evolver_set e i v = Inr e1 \<and> evolver_set e1 i w = Inr e2 \<and>
         evolver_getitem e2 i = Inr w \<and>
         map_of (updated_elements e2) i = Some w \<and>
         (\<forall>j. j \<noteq> i \<longrightarrow> evolver_getitem e2 j = evolver_getitem e j))) \<and>
   (evolver_cls e = ResizableHashableStructureEvolver \<longrightarrow>
      (\<exists>e1. evolver_append e v = Inr e1 \<and>
         evolver_set e1 (structure_len (original_structure e) + 0) w = Inl IndexError))"
proof (intro conjI impI)
  assume r: "0 \<le> i \<and> i < evolver_len e"
  let ?e1 = "e\<lparr>updated_elements := AList.update i v (updated_elements e)\<rparr>"
  let ?e2 = "?e1\<lparr>updated_elements := AList.update i w (updated_elements ?e1)\<rparr>"
  have 1: "evolver_set e i v = Inr ?e1"
    using r by (simp add: evolver_set_def evolver_setitem_def)
  have 2: "evolver_set ?e1 i w = Inr ?e2"
    using r by (simp add: evolver_set_def evolver_setitem_def evolver_len_def)
  have 3: "map_of (updated_elements ?e2) i = Some w"
    by (simp add: update_conv')
  have 4: "evolver_getitem ?e2 i = Inr w"
    using 3 by (simp add: evolver_getitem_def)
  have 5: "\<forall>j. j \<noteq> i \<longrightarrow> evolver_getitem ?e2 j = evolver_getitem e j"
    by (auto simp add: evolver_getitem_def update_conv' split: option.splits)
  from 1 2 3 4 5
  show "\<exists>e1 e2. evolver_set e i v = Inr e1 \<and> evolver_set e1 i w = Inr e2 \<and>
         evolver_getitem e2 i = Inr w \<and>
         map_of (updated_elements e2) i = Some w \<and>
         (\<forall>j. j \<noteq> i \<longrightarrow> evolver_getitem e2 j = evolver_getitem e j)"
    by blast
next
  assume "evolver_cls e = ResizableHashableStructureEvolver"
  then show "\<exists>e1. evolver_append e v = Inr e1 \<and>
         evolver_set e1 (structure_len (original_structure e) + 0) w = Inl IndexError"
    by (simp add: evolver_append_def evolver_set_def evolver_setitem_def evolver_len_def)
qed

theorem set_twice_and_set_after_append_witness:
  "0 \<le> (0::int) \<and> 0 < evolver_len (evolver example_list) \<and>
   evolver_cls (evolver example_list) = ResizableHashableStructureEvolver \<and>
   (\<exists>e1 e2. evolver_set (evolver example_list) 0 12 = Inr e1 \<and>
      evolver_set e1 0 13 = Inr e2 \<and> evolver_getitem e2 0 = Inr 13) \<and>
   (\<exists>e1. evolver_append (evolver example_list) 12 = Inr e1 \<and>
      evolver_set e1 1 13 = Inl IndexError)"
proof -
  have a: "0 \<le> (0::int) \<and> 0 < evolver_len (evolver example_list)"
    by (simp add: evolver_len_def evolver_list_facts)
  have b: "evolver_cls (evolver example_list) = ResizableHashableStructureEvolver"
    by (simp add: evolver_list_facts)
  note t = set_twice_and_set_after_append
    [where i = 0 and e = "evolver example_list" and v = 12 and w = 13]
  from t a have "\<exists>e1 e2. evolver_set (evolver example_list) 0 12 = Inr e1 \<and>
      evolver_set e1 0 13 = Inr e2 \<and> evolver_getitem e2 0 = Inr 13"
    by blast
  moreover from t b have "\<exists>e1. evolver_append (evolver example_list) 12 = Inr e1 \<and>
      evolver_set e1 1 13 = Inl IndexError"
    by (simp add: evolver_list_facts)
  ultimately show ?thesis using a b by blast
qed

section \<open>Length mixing\<close>

text \<open>
  Claim C5. The root of a HashableList is the hash of its raw root followed by
  \<open>le256\<close> of its element count, where \<open>le256\<close> yields 32 bytes that stand, read
  as a little-endian number, for the count (modulo \<open>2 ^ 256\<close>).
\<close>

theorem HashableList_root_mixes_length:
  "HashableList_root H l = H (raw_root l @ le256 (length (elements l))) \<and>
   length (le256 (length (elements l))) = 32 \<and>
   from_bytes_little (le256 (length (elements l))) = length (elements l) mod 2 ^ 256"
proof -
  have "(256::nat) ^ 32 = 2 ^ 256" by simp
  then show ?thesis
    by (simp add: HashableList_root_def mix_in_length_def structure_len_def le256_def
        length_to_bytes_little from_to_bytes_little)
qed

section \<open>Calls that do not fit the callee's parameters\<close>

text \<open>
  No dirty evolver is ever materialised, and no structure is ever built from an
  iterable: both paths end at a call that Python rejects with TypeError (or earlier, at
  an exception of the sedes).
\<close>

lemma persistent_dirty_raises:
  "is_dirty e \<Longrightarrow> \<exists>err. persistent e = Inl err"
  by (auto simp add: persistent_def split: sum.splits)

lemma persistent_returns_original: "persistent e = Inr t \<Longrightarrow> t = original_structure e"
  by (auto simp add: persistent_def split: sum.splits if_splits)

lemma from_iterable_never_returns: "from_iterable iterable sd \<noteq> Inr s"
  by (auto simp add: from_iterable_def split: sum.splits)

text \<open>
  Claim C1 (the root after edits through an evolver equals the root rebuilt from
  scratch) is not met by the code: on the list \<open>[10]\<close>, \<^verbatim>\<open>set(0, 12)\<close> succeeds
  on the evolver, and \<^verbatim>\<open>persistent()\<close> then raises TypeError instead of returning
  a structure; so does \<^verbatim>\<open>s.set(0, 12)\<close>.
\<close>

theorem persistent_after_set_raises:
  "evolver_set (evolver example_list) 0 12 = Inr example_updated \<and>
   persistent example_updated = Inl TypeError \<and>
   set_structure example_list 0 12 = Inl TypeError"
  by (simp add: evolver_set_def evolver_setitem_def evolver_len_def structure_len_def
      example_updated_def evolver_def example_list_def persistent_def is_dirty_def
      uint128_sedes_def set_structure_def mset_structure_def)

text \<open>
  Claim C2 (\<^verbatim>\<open>from_iterable\<close> returns a structure whose root is the one computed
  from scratch) is not met by the code: for the empty iterable and for \<open>[10, 11, 12]\<close>
  over the 128-bit sedes, \<^verbatim>\<open>from_iterable\<close> raises TypeError.
\<close>

theorem from_iterable_raises:
  "from_iterable [] uint128_sedes = Inl TypeError \<and>
   from_iterable [10, 11, 12] uint128_sedes = Inl TypeError"
  by (simp add: from_iterable_def uint128_sedes_def)

section \<open>Repetition\<close>

text \<open>
  \<^verbatim>\<open>s * n\<close> on a list: a factor \<open>n \<le> 0\<close> raises ValueError and the factor 1
  returns \<open>s\<close>.
\<close>

lemma mul_structure_nonpositive:
  "cls s = HashableList \<Longrightarrow> n_times \<le> 0 \<Longrightarrow> mul_structure s n_times = Inl ValueError"
  by (simp add: mul_structure_def mul_with.simps)

lemma mul_structure_once:
  "cls s = HashableList \<Longrightarrow> mul_structure s 1 = Inr s"
  by (simp add: mul_structure_def mul_with.simps)

lemma add_example_list_raises: "add_structure example_list (elements example_list) = Inl TypeError"
  by (simp add: add_structure_def extend_structure_def evolver_extend_def evolver_def
      example_list_def persistent_def is_dirty_def uint128_sedes_def structure_len_def)

text \<open>
  Claim C7 (\<^verbatim>\<open>s.repeat(n)\<close> holds \<open>n\<close> copies of the elements of \<open>s\<close> for
  \<open>n > 1\<close>) is not met by the code: on the list \<open>[10]\<close> the factors 2 and 3 raise
  TypeError, since \<^verbatim>\<open>self + self\<close> materialises a dirty evolver.
\<close>

theorem mul_structure_raises:
  "mul_structure example_list 2 = Inl TypeError \<and>
   mul_structure example_list 3 = Inl TypeError"
proof -
  have c: "cls example_list = HashableList" by (simp add: example_list_def)
  have "mul_with add_structure example_list 2 = Inl TypeError"
    by (subst mul_with.simps) (simp add: add_example_list_raises)
  moreover have "mul_with add_structure example_list 3 = Inl TypeError"
    by (subst mul_with.simps) (simp add: add_example_list_raises)
  ultimately show ?thesis by (simp add: mul_structure_def c)
qed

text \<open>
  The recursion of \<^verbatim>\<open>__mul__\<close> on its own: with any \<^verbatim>\<open>+\<close> that does
  concatenate, each step doubles the structure, so the factor \<open>1 + k\<close> yields
  \<open>2 ^ k\<close> copies; the factor 3 yields four.
\<close>

lemma mul_with_doubles:
  assumes add: "\<And>s. \<exists>s'. add s (elements s) = Inr s' \<and> elements s' = elements s @ elements s"
  shows "\<exists>r. mul_with add s (1 + int k) = Inr r \<and>
     length (elements r) = 2 ^ k * length (elements s)"
proof (induction k arbitrary: s)
  case 0
  have "mul_with add s 1 = Inr s"
    by (subst mul_with.simps) simp
  then show ?case by simp
next
  case (Suc k)
  from add obtain s' where
    s': "add s (elements s) = Inr s'" "elements s' = elements s @ elements s"
    by blast
  have step: "mul_with add s (1 + int (Suc k)) = mul_with add s' (1 + int k)"
    by (subst mul_with.simps) (simp add: s')
  from Suc.IH [of s'] obtain r where
    r: "mul_with add s' (1 + int k) = Inr r"
       "length (elements r) = 2 ^ k * length (elements s')"
    by blast
  have "length (elements r) = 2 ^ Suc k * length (elements s)"
    using r(2) s'(2) by simp
  with step r(1) show ?case by simp
qed

lemma mul_with_three_is_fourfold:
  assumes "\<And>s. \<exists>s'. add s (elements s) = Inr s' \<and> elements s' = elements s @ elements s"
  shows "\<exists>r. mul_with add s 3 = Inr r \<and> length (elements r) = 4 * length (elements s)"
  using mul_with_doubles [of add s 2, OF assms] by simp

section \<open>The chunk helpers on examples\<close>

text \<open>
  The example of the docstring of \<^verbatim>\<open>update_element_in_chunk\<close>
  (\<^verbatim>\<open>b"aabbcc", 1, b"xx"\<close> gives \<^verbatim>\<open>b"aaxxcc"\<close>), and the two chunk
  computations on 16-byte elements: three appended elements make two chunks, the second
  one padded; one update and one appended element that still fits change one chunk each.
\<close>

lemma update_element_in_chunk_docstring:
  "update_element_in_chunk [97, 97, 98, 98, 99, 99] 1 [120, 120] = Inr [97, 97, 120, 120, 99, 99]"
  by (simp add: update_element_in_chunk_def)

lemma get_appended_chunks_example:
  "get_appended_chunks [replicate 16 0xaa, replicate 16 0xbb, replicate 16 0xcc] 0 =
     Inr [replicate 16 0xaa @ replicate 16 0xbb, replicate 16 0xcc @ replicate 16 0]"
  by code_simp

lemma get_updated_chunks_example:
  "get_updated_chunks [(1, replicate 16 0xdd)] [replicate 16 0xee, replicate 16 0xff]
     [replicate 16 0xaa @ replicate 16 0xbb, replicate 16 0xcc @ replicate 16 0] 3 1 =
   Inr [(0, replicate 16 0xaa @ replicate 16 0xdd), (1, replicate 16 0xcc @ replicate 16 0xee)]"
  by code_simp

lemma get_num_padding_elements_example: "get_num_padding_elements 2 3 16 = Inr 1"
  by (simp add: get_num_padding_elements_def CHUNK_SIZE_def)

end
